theory Spec2Isabelle
  imports Complex_Main "HOL-Library.Multiset"
begin

section \<open>StorageNet: the chain manager and the mempool\<close>

text \<open>
  A shallow embedding of \<^verbatim>\<open>src/blockchain/chain.py\<close> (class \<^verbatim>\<open>Blockchain\<close>) and
  \<^verbatim>\<open>src/blockchain/mempool.py\<close> (class \<^verbatim>\<open>Mempool\<close>).

  Both classes mutate an object (\<^verbatim>\<open>self\<close>) and talk to collaborators whose code
  lives in other modules: the SQLite connection, the block and transaction
  repositories, the consensus rules, the peer-to-peer network, the signing key.
  The embedding passes the object and the outside world explicitly: a method
  takes \<open>(self, w)\<close> and returns its outcome together with the new \<open>(self, w)\<close>.
  The collaborators are the fields of an environment record; every theorem
  that does not name a particular environment holds for all of them.
\<close>

subsection \<open>Outcomes of a call\<close>

text \<open>
  A Python call returns a value, raises an exception, or does not come back
  (the proof-of-work search is unbounded). \<^verbatim>\<open>except Exception\<close> catches the
  second and never the third.
\<close>

datatype error = OperationalError | RuntimeError | KeyError | OtherException

datatype 'a outcome = Return 'a | Raise error | Diverge

subsection \<open>Data\<close>

text \<open>
  \<^verbatim>\<open>Transaction\<close> and \<^verbatim>\<open>Block\<close> are declared in modules outside the two files;
  their fields are the ones the two files read and write, typed as the data
  model describes them. \<open>tx_hash\<close> is optional because \<^verbatim>\<open>add_transaction\<close> tests
  it for truth before comparing it.
\<close>

record transaction =
  sender :: string
  recipient :: string
  amount :: int
  data :: "(string \<times> string) list"
  timestamp :: int
  tx_hash :: "string option"
  signature :: "string option"

text \<open>
  Fields of \<^verbatim>\<open>Block\<close>. Two names are prefixed because a record of this theory
  already has a field of that name: \<open>block_timestamp\<close> is \<^verbatim>\<open>Block.timestamp\<close> and
  \<open>block_transactions\<close> is \<^verbatim>\<open>Block.transactions\<close>.
\<close>

record block =
  index :: int
  block_timestamp :: int
  block_transactions :: "transaction list"
  previous_hash :: string
  difficulty :: int
  nonce :: int
  hash :: string
  validator :: "string option"
  block_signature :: "string option"

text \<open>
  The SQL the two files send through \<^verbatim>\<open>cursor.execute\<close> and
  \<^verbatim>\<open>cursor.executescript\<close>:
  \<^item> \<open>DropTables\<close>: the script of \<^verbatim>\<open>_reset_blockchain\<close>,
    \<^verbatim>\<open>DROP TABLE IF EXISTS\<close> for \<^verbatim>\<open>blocks\<close>, \<^verbatim>\<open>transactions\<close> and \<^verbatim>\<open>mempool\<close>;
  \<^item> \<open>SelectMempoolTableName\<close>: the \<^verbatim>\<open>sqlite_master\<close> query of \<^verbatim>\<open>_load_from_db\<close>;
  \<^item> \<open>SelectAllMempool\<close>: \<^verbatim>\<open>SELECT * FROM mempool\<close>;
  \<^item> \<open>InsertOrIgnoreMempool tx\<close>: the \<^verbatim>\<open>INSERT OR IGNORE INTO mempool\<close> of
    \<^verbatim>\<open>add_transaction\<close> with the seven columns of \<open>tx\<close>;
  \<^item> \<open>DeleteMempool h\<close>: \<^verbatim>\<open>DELETE FROM mempool WHERE tx_hash = h\<close>.
\<close>

datatype sql =
    DropTables
  | SelectMempoolTableName
  | SelectAllMempool
  | InsertOrIgnoreMempool transaction
  | DeleteMempool string

subsection \<open>Collaborators\<close>

text \<open>
  \<open>'w\<close> is the state of everything outside the object: the database file,
  the open cursor, the peers. \<open>'k\<close> is the validator's private key. An
  operation that can change the world returns the new world with its outcome,
  also when it raises. The consensus predicates and the transaction hash are
  pure functions of their argument.
\<close>

record ('w, 'k) env =
  calculate_hash :: "transaction \<Rightarrow> string"
  broadcast_transaction :: "'w \<Rightarrow> transaction \<Rightarrow> unit outcome \<times> 'w"
  db_connection :: "'w \<Rightarrow> unit outcome \<times> 'w"
  db_execute :: "'w \<Rightarrow> sql \<Rightarrow> unit outcome \<times> 'w"
  db_fetchone :: "'w \<Rightarrow> string list option outcome \<times> 'w"
  db_commit :: "'w \<Rightarrow> unit outcome \<times> 'w"
  init_db :: "'w \<Rightarrow> unit outcome \<times> 'w"
  get_block_count :: "'w \<Rightarrow> int outcome"
  get_block_by_index :: "'w \<Rightarrow> int \<Rightarrow> block option outcome"
  save_block :: "'w \<Rightarrow> block \<Rightarrow> int outcome \<times> 'w"
  save_transaction :: "'w \<Rightarrow> transaction \<Rightarrow> int \<Rightarrow> unit outcome \<times> 'w"
  save_transactions_bulk :: "'w \<Rightarrow> transaction list \<Rightarrow> int \<Rightarrow> unit outcome \<times> 'w"
  proof_of_work :: "block \<Rightarrow> block outcome"
  is_chain_valid :: "block list \<Rightarrow> bool"
  cumulative_difficulty :: "block list \<Rightarrow> int"
  public_key_pem :: "'k \<Rightarrow> string outcome"
  sign_block :: "block \<Rightarrow> 'k \<Rightarrow> block outcome"

subsection \<open>Python dictionaries and slices\<close>

text \<open>
  A \<^verbatim>\<open>dict\<close> keeps its keys in insertion order, and \<^verbatim>\<open>sorted\<close> is stable, so
  the order is part of what \<^verbatim>\<open>get_transactions\<close> returns: the mapping is an
  association list. \<open>dict_set\<close> is \<^verbatim>\<open>d[k] = v\<close> (an existing key keeps its
  place), \<open>dict_del\<close> is \<^verbatim>\<open>del d[k]\<close> on a key that is present, \<open>dict_has\<close> is
  \<^verbatim>\<open>k in d\<close>.
\<close>

definition dict_has :: "'k \<Rightarrow> ('k \<times> 'v) list \<Rightarrow> bool" where
  "dict_has k d = (k \<in> set (map fst d))"

fun dict_set :: "'k \<Rightarrow> 'v \<Rightarrow> ('k \<times> 'v) list \<Rightarrow> ('k \<times> 'v) list" where
  "dict_set k v [] = [(k, v)]"
| "dict_set k v (p # d) = (if fst p = k then (k, v) # d else p # dict_set k v d)"

definition dict_del :: "'k \<Rightarrow> ('k \<times> 'v) list \<Rightarrow> ('k \<times> 'v) list" where
  "dict_del k d = filter (\<lambda>p. fst p \<noteq> k) d"

text \<open>\<^verbatim>\<open>xs[:n]\<close>: a negative \<open>n\<close> counts from the end.\<close>

definition slice_to :: "'a list \<Rightarrow> int \<Rightarrow> 'a list" where
  "slice_to xs n =
     (if 0 \<le> n then take (nat n) xs else take (length xs - nat (- n)) xs)"

subsection \<open>The mempool (mempool.py)\<close>

text \<open>
  \<open>p2p_network\<close> records whether the attribute is there, which is what
  \<^verbatim>\<open>hasattr(self, 'p2p_network')\<close> asks.
\<close>

record mempool =
  transactions :: "(string \<times> transaction) list"
  max_size :: int
  p2p_network :: bool

text \<open>\<^verbatim>\<open>Mempool._load_from_db\<close>: the rows of the second query are never fetched.\<close>

definition load_from_db :: "('w, 'k) env \<Rightarrow> 'w \<Rightarrow> unit outcome \<times> 'w" where
  "load_from_db env w =
     (case db_connection env w of
        (Return u, w1) \<Rightarrow>
          (case db_execute env w1 SelectMempoolTableName of
             (Return u, w2) \<Rightarrow>
               (case db_fetchone env w2 of
                  (Return row, w3) \<Rightarrow>
                    if row = None \<or> row = Some [] then (Return (), w3)
                    else db_execute env w3 SelectAllMempool
                | (Raise e, w3) \<Rightarrow> (Raise e, w3)
                | (Diverge, w3) \<Rightarrow> (Diverge, w3))
           | (Raise e, w2) \<Rightarrow> (Raise e, w2)
           | (Diverge, w2) \<Rightarrow> (Diverge, w2))
      | (Raise e, w1) \<Rightarrow> (Raise e, w1)
      | (Diverge, w1) \<Rightarrow> (Diverge, w1))"

text \<open>\<^verbatim>\<open>Mempool.__init__\<close>: only \<^verbatim>\<open>sqlite3.OperationalError\<close> is caught.\<close>

definition Mempool_init :: "('w, 'k) env \<Rightarrow> 'w \<Rightarrow> mempool outcome \<times> 'w" where
  "Mempool_init env w =
     (let self = \<lparr>transactions = [], max_size = 1000, p2p_network = True\<rparr> in
      case load_from_db env w of
        (Return u, w1) \<Rightarrow> (Return self, w1)
      | (Raise e, w1) \<Rightarrow>
          if e = OperationalError then (Return self, w1) else (Raise e, w1)
      | (Diverge, w1) \<Rightarrow> (Diverge, w1))"

text \<open>
  The \<^verbatim>\<open>with db_connection() as conn\<close> block of \<^verbatim>\<open>add_transaction\<close>: open,
  insert, commit.
\<close>

definition insert_into_mempool_table ::
    "('w, 'k) env \<Rightarrow> transaction \<Rightarrow> 'w \<Rightarrow> unit outcome \<times> 'w" where
  "insert_into_mempool_table env tx w =
     (case db_connection env w of
        (Return u, w1) \<Rightarrow>
          (case db_execute env w1 (InsertOrIgnoreMempool tx) of
             (Return u, w2) \<Rightarrow> db_commit env w2
           | (Raise e, w2) \<Rightarrow> (Raise e, w2)
           | (Diverge, w2) \<Rightarrow> (Diverge, w2))
      | (Raise e, w1) \<Rightarrow> (Raise e, w1)
      | (Diverge, w1) \<Rightarrow> (Diverge, w1))"

text \<open>
  \<^verbatim>\<open>Mempool.add_transaction\<close>. The whole body is inside
  \<^verbatim>\<open>try ... except Exception: return False\<close>. The order is the source's:
  the three checks, the broadcast, the store into \<^verbatim>\<open>self.transactions\<close>, the
  database insert.
\<close>

definition add_transaction ::
    "('w, 'k) env \<Rightarrow> transaction \<Rightarrow> mempool \<times> 'w \<Rightarrow> bool outcome \<times> mempool \<times> 'w" where
  "add_transaction env tx = (\<lambda>(self, w).
     case tx_hash tx of
       None \<Rightarrow> (Return False, self, w)
     | Some h \<Rightarrow>
         if h = [] \<or> h \<noteq> calculate_hash env tx then (Return False, self, w)
         else if dict_has h (transactions self) then (Return False, self, w)
         else if max_size self \<le> int (length (transactions self)) then (Return False, self, w)
         else
           (case (if \<not> dict_has h (transactions self) \<and> p2p_network self
                  then broadcast_transaction env w tx else (Return (), w)) of
              (Return u, w1) \<Rightarrow>
                (let self1 = self\<lparr>transactions := dict_set h tx (transactions self)\<rparr> in
                 case insert_into_mempool_table env tx w1 of
                   (Return u, w2) \<Rightarrow> (Return True, self1, w2)
                 | (Raise e, w2) \<Rightarrow> (Return False, self1, w2)
                 | (Diverge, w2) \<Rightarrow> (Diverge, self1, w2))
            | (Raise e, w1) \<Rightarrow> (Return False, self, w1)
            | (Diverge, w1) \<Rightarrow> (Diverge, self, w1)))"

text \<open>
  \<^verbatim>\<open>Mempool.get_transactions\<close>: \<^verbatim>\<open>sorted(values, key=timestamp)[:max_count]\<close>.
  The method assigns nothing; the object is returned as it was received.
\<close>

definition get_transactions :: "int \<Rightarrow> mempool \<Rightarrow> transaction list \<times> mempool" where
  "get_transactions max_count self =
     (let sorted_txs = sort_key timestamp (map snd (transactions self))
      in (slice_to sorted_txs max_count, self))"

text \<open>The \<^verbatim>\<open>for\<close> loop of \<^verbatim>\<open>remove_transactions\<close>.\<close>

fun remove_loop ::
    "('w, 'k) env \<Rightarrow> string list \<Rightarrow> mempool \<Rightarrow> 'w \<Rightarrow> unit outcome \<times> mempool \<times> 'w" where
  "remove_loop env [] self w = (Return (), self, w)"
| "remove_loop env (h # hs) self w =
     (let self1 = (if dict_has h (transactions self)
                   then self\<lparr>transactions := dict_del h (transactions self)\<rparr> else self)
      in case db_execute env w (DeleteMempool h) of
           (Return u, w1) \<Rightarrow> remove_loop env hs self1 w1
         | (Raise e, w1) \<Rightarrow> (Raise e, self1, w1)
         | (Diverge, w1) \<Rightarrow> (Diverge, self1, w1))"

text \<open>\<^verbatim>\<open>Mempool.remove_transactions\<close>: nothing is caught.\<close>

definition remove_transactions ::
    "('w, 'k) env \<Rightarrow> string list \<Rightarrow> mempool \<times> 'w \<Rightarrow> unit outcome \<times> mempool \<times> 'w" where
  "remove_transactions env tx_hashes = (\<lambda>(self, w).
     case db_connection env w of
       (Return u, w1) \<Rightarrow>
         (case remove_loop env tx_hashes self w1 of
            (Return u, self1, w2) \<Rightarrow>
              (case db_commit env w2 of
                 (Return u, w3) \<Rightarrow> (Return (), self1, w3)
               | (Raise e, w3) \<Rightarrow> (Raise e, self1, w3)
               | (Diverge, w3) \<Rightarrow> (Diverge, self1, w3))
          | (Raise e, self1, w2) \<Rightarrow> (Raise e, self1, w2)
          | (Diverge, self1, w2) \<Rightarrow> (Diverge, self1, w2))
     | (Raise e, w1) \<Rightarrow> (Raise e, self, w1)
     | (Diverge, w1) \<Rightarrow> (Diverge, self, w1))"

text \<open>
  The test of \<^verbatim>\<open>clear_expired\<close>, \<^verbatim>\<open>now - tx.timestamp > expiry_seconds\<close>. \<open>now\<close> is
  the reading of \<^verbatim>\<open>time.time()\<close>, a number of seconds with a fractional part.
\<close>

definition is_expired :: "real \<Rightarrow> int \<Rightarrow> transaction \<Rightarrow> bool" where
  "is_expired now expiry_seconds tx =
     (now - real_of_int (timestamp tx) > real_of_int expiry_seconds)"

text \<open>The list comprehension of \<^verbatim>\<open>clear_expired\<close>.\<close>

definition expired_hashes :: "real \<Rightarrow> int \<Rightarrow> mempool \<Rightarrow> string list" where
  "expired_hashes now expiry_seconds self =
     map fst (filter (\<lambda>p. is_expired now expiry_seconds (snd p)) (transactions self))"

text \<open>
  The \<^verbatim>\<open>for\<close> loop of \<^verbatim>\<open>clear_expired\<close>. Unlike \<^verbatim>\<open>remove_transactions\<close> it deletes
  without asking whether the key is there, so a missing key is a \<^verbatim>\<open>KeyError\<close>.
\<close>

fun clear_loop ::
    "('w, 'k) env \<Rightarrow> string list \<Rightarrow> mempool \<Rightarrow> 'w \<Rightarrow> unit outcome \<times> mempool \<times> 'w" where
  "clear_loop env [] self w = (Return (), self, w)"
| "clear_loop env (h # hs) self w =
     (if \<not> dict_has h (transactions self) then (Raise KeyError, self, w)
      else
        (let self1 = self\<lparr>transactions := dict_del h (transactions self)\<rparr>
         in case db_execute env w (DeleteMempool h) of
              (Return u, w1) \<Rightarrow> clear_loop env hs self1 w1
            | (Raise e, w1) \<Rightarrow> (Raise e, self1, w1)
            | (Diverge, w1) \<Rightarrow> (Diverge, self1, w1)))"

text \<open>\<^verbatim>\<open>Mempool.clear_expired\<close>: nothing is caught.\<close>

definition clear_expired ::
    "('w, 'k) env \<Rightarrow> real \<Rightarrow> int \<Rightarrow> mempool \<times> 'w \<Rightarrow> unit outcome \<times> mempool \<times> 'w" where
  "clear_expired env now expiry_seconds = (\<lambda>(self, w).
     (let expired = expired_hashes now expiry_seconds self in
      case db_connection env w of
        (Return u, w1) \<Rightarrow>
          (case clear_loop env expired self w1 of
             (Return u, self1, w2) \<Rightarrow>
               (case db_commit env w2 of
                  (Return u, w3) \<Rightarrow> (Return (), self1, w3)
                | (Raise e, w3) \<Rightarrow> (Raise e, self1, w3)
                | (Diverge, w3) \<Rightarrow> (Diverge, self1, w3))
           | (Raise e, self1, w2) \<Rightarrow> (Raise e, self1, w2)
           | (Diverge, self1, w2) \<Rightarrow> (Diverge, self1, w2))
      | (Raise e, w1) \<Rightarrow> (Raise e, self, w1)
      | (Diverge, w1) \<Rightarrow> (Diverge, self, w1)))"

subsection \<open>The chain manager (chain.py)\<close>

text \<open>
  The state of a \<^verbatim>\<open>Blockchain\<close> object. \<open>bc_difficulty\<close> is \<^verbatim>\<open>self.difficulty\<close>
  (prefixed because \<open>difficulty\<close> is the block's field).
\<close>

record blockchain =
  bc_difficulty :: int
  chain :: "block list"

text \<open>\<^verbatim>\<open>int(x)\<close> on a float truncates towards zero.\<close>

definition py_int :: "real \<Rightarrow> int" where
  "py_int r = (if 0 \<le> r then \<lfloor>r\<rfloor> else \<lceil>r\<rceil>)"

text \<open>
  Modelled from the spec: the constructor of \<^verbatim>\<open>Block\<close> (\<^verbatim>\<open>block.py\<close> is not
  among the sources). It stores its five arguments; a block that has only been
  built has no validator and no signature, and its nonce and hash are set by
  the proof-of-work that follows. The values \<open>nonce\<close> and \<open>hash\<close> hold before
  mining are not visible from the two files; they are written as \<open>0\<close> and the
  empty string.
\<close>

definition Block :: "int \<Rightarrow> int \<Rightarrow> transaction list \<Rightarrow> string \<Rightarrow> int \<Rightarrow> block" where
  "Block idx ts txs prev diff =
     \<lparr>index = idx, block_timestamp = ts, block_transactions = txs, previous_hash = prev,
      difficulty = diff, nonce = 0, hash = [], validator = None, block_signature = None\<rparr>"

text \<open>
  Modelled from the spec: the constructor of \<^verbatim>\<open>Transaction\<close> (\<^verbatim>\<open>transaction.py\<close>
  is not among the sources). It stores its four arguments, takes the timestamp
  it is not given from the clock (the parameter \<open>ts\<close>), derives \<open>tx_hash\<close> from the
  value fields and leaves the signature absent.
\<close>

definition Transaction ::
    "('w, 'k) env \<Rightarrow> int \<Rightarrow> string \<Rightarrow> string \<Rightarrow> int \<Rightarrow> (string \<times> string) list \<Rightarrow> transaction" where
  "Transaction env ts s r a d =
     (let tx = \<lparr>sender = s, recipient = r, amount = a, data = d, timestamp = ts,
                tx_hash = None, signature = None\<rparr>
      in tx\<lparr>tx_hash := Some (calculate_hash env tx)\<rparr>)"

text \<open>The two objects \<^verbatim>\<open>_create_genesis_block\<close> builds before mining.\<close>

definition genesis_tx :: "('w, 'k) env \<Rightarrow> int \<Rightarrow> transaction" where
  "genesis_tx env ts =
     Transaction env ts ''0'' ''0'' 0
       [(''type'', ''genesis''), (''message'', ''Initial block of the chain'')]"

definition genesis_block :: "('w, 'k) env \<Rightarrow> int \<Rightarrow> blockchain \<Rightarrow> block" where
  "genesis_block env ts self = Block 0 0 [genesis_tx env ts] ''0'' (bc_difficulty self)"

text \<open>
  \<^verbatim>\<open>Blockchain._create_genesis_block\<close>: mine, save the block, save its
  transaction; the \<^verbatim>\<open>except\<close> re-raises.
\<close>

definition create_genesis_block ::
    "('w, 'k) env \<Rightarrow> int \<Rightarrow> blockchain \<Rightarrow> 'w \<Rightarrow> block outcome \<times> 'w" where
  "create_genesis_block env ts self w =
     (case proof_of_work env (genesis_block env ts self) of
        Return g \<Rightarrow>
          (case save_block env w g of
             (Return block_id, w1) \<Rightarrow>
               (case save_transaction env w1 (genesis_tx env ts) block_id of
                  (Return u, w2) \<Rightarrow> (Return g, w2)
                | (Raise e, w2) \<Rightarrow> (Raise e, w2)
                | (Diverge, w2) \<Rightarrow> (Diverge, w2))
           | (Raise e, w1) \<Rightarrow> (Raise e, w1)
           | (Diverge, w1) \<Rightarrow> (Diverge, w1))
      | Raise e \<Rightarrow> (Raise e, w)
      | Diverge \<Rightarrow> (Diverge, w))"

text \<open>
  \<^verbatim>\<open>Blockchain._initialize_new_chain\<close>: any exception becomes a
  \<^verbatim>\<open>RuntimeError\<close>.
\<close>

definition initialize_new_chain ::
    "('w, 'k) env \<Rightarrow> int \<Rightarrow> blockchain \<times> 'w \<Rightarrow> unit outcome \<times> blockchain \<times> 'w" where
  "initialize_new_chain env ts = (\<lambda>(self, w).
     case create_genesis_block env ts self w of
       (Return g, w1) \<Rightarrow> (Return (), self\<lparr>chain := [g]\<rparr>, w1)
     | (Raise e, w1) \<Rightarrow> (Raise RuntimeError, self, w1)
     | (Diverge, w1) \<Rightarrow> (Diverge, self, w1))"

text \<open>
  \<^verbatim>\<open>Blockchain._reset_blockchain\<close>: drop the three tables, commit, and create
  the schema again.
\<close>

definition reset_blockchain :: "('w, 'k) env \<Rightarrow> 'w \<Rightarrow> unit outcome \<times> 'w" where
  "reset_blockchain env w =
     (case db_connection env w of
        (Return u, w1) \<Rightarrow>
          (case db_execute env w1 DropTables of
             (Return u, w2) \<Rightarrow>
               (case db_commit env w2 of
                  (Return u, w3) \<Rightarrow> init_db env w3
                | (Raise e, w3) \<Rightarrow> (Raise e, w3)
                | (Diverge, w3) \<Rightarrow> (Diverge, w3))
           | (Raise e, w2) \<Rightarrow> (Raise e, w2)
           | (Diverge, w2) \<Rightarrow> (Diverge, w2))
      | (Raise e, w1) \<Rightarrow> (Raise e, w1)
      | (Diverge, w1) \<Rightarrow> (Diverge, w1))"

text \<open>
  The \<^verbatim>\<open>for index in range(block_count)\<close> loop of \<^verbatim>\<open>load_chain\<close>. \<open>None\<close> is the
  early \<^verbatim>\<open>return []\<close> on a missing block.
\<close>

fun load_blocks ::
    "('w, 'k) env \<Rightarrow> 'w \<Rightarrow> nat list \<Rightarrow> block list \<Rightarrow> block list option outcome" where
  "load_blocks env w [] acc = Return (Some acc)"
| "load_blocks env w (i # rest) acc =
     (case get_block_by_index env w (int i) of
        Return None \<Rightarrow> Return None
      | Return (Some b) \<Rightarrow> load_blocks env w rest (acc @ [b])
      | Raise e \<Rightarrow> Raise e
      | Diverge \<Rightarrow> Diverge)"

text \<open>\<^verbatim>\<open>Blockchain.load_chain\<close>: an empty or rejected chain is returned as \<^verbatim>\<open>[]\<close>.\<close>

definition load_chain :: "('w, 'k) env \<Rightarrow> 'w \<Rightarrow> block list outcome" where
  "load_chain env w =
     (case get_block_count env w of
        Return block_count \<Rightarrow>
          (case load_blocks env w [0..<nat block_count] [] of
             Return None \<Rightarrow> Return []
           | Return (Some loaded) \<Rightarrow>
               if loaded = [] \<or> \<not> is_chain_valid env loaded then Return [] else Return loaded
           | Raise e \<Rightarrow> Raise e
           | Diverge \<Rightarrow> Diverge)
      | Raise e \<Rightarrow> Raise e
      | Diverge \<Rightarrow> Diverge)"

text \<open>The \<^verbatim>\<open>try\<close> block of \<^verbatim>\<open>Blockchain.__init__\<close>.\<close>

definition init_try ::
    "('w, 'k) env \<Rightarrow> int \<Rightarrow> blockchain \<times> 'w \<Rightarrow> unit outcome \<times> blockchain \<times> 'w" where
  "init_try env ts = (\<lambda>(self, w).
     case init_db env w of
       (Return u, w1) \<Rightarrow>
         (case load_chain env w1 of
            Return loaded \<Rightarrow>
              (let self1 = self\<lparr>chain := loaded\<rparr> in
               if chain self1 = [] then initialize_new_chain env ts (self1, w1)
               else if \<not> is_chain_valid env (chain self1) then
                 (case reset_blockchain env w1 of
                    (Return u, w2) \<Rightarrow> initialize_new_chain env ts (self1, w2)
                  | (Raise e, w2) \<Rightarrow> (Raise e, self1, w2)
                  | (Diverge, w2) \<Rightarrow> (Diverge, self1, w2))
               else (Return (), self1, w1))
          | Raise e \<Rightarrow> (Raise e, self, w1)
          | Diverge \<Rightarrow> (Diverge, self, w1))
     | (Raise e, w1) \<Rightarrow> (Raise e, self, w1)
     | (Diverge, w1) \<Rightarrow> (Diverge, self, w1))"

text \<open>
  \<^verbatim>\<open>Blockchain.__init__\<close>: the two assignments (\<open>new_self\<close>), the \<^verbatim>\<open>try\<close> block,
  and on any exception the reset followed by a new chain. An exception of the
  handler leaves the constructor. \<open>diff\<close> is the argument \<^verbatim>\<open>difficulty\<close>, \<open>ts\<close> the
  timestamp the genesis transaction takes from the clock.
\<close>

definition new_self :: "int \<Rightarrow> blockchain" where
  "new_self diff = \<lparr>bc_difficulty = diff, chain = []\<rparr>"

definition Blockchain_init ::
    "('w, 'k) env \<Rightarrow> int \<Rightarrow> int \<Rightarrow> 'w \<Rightarrow> blockchain outcome \<times> 'w" where
  "Blockchain_init env diff ts w =
     (let self = new_self diff in
      case init_try env ts (self, w) of
        (Return u, self1, w1) \<Rightarrow> (Return self1, w1)
      | (Raise e, self1, w1) \<Rightarrow>
          (case reset_blockchain env w1 of
             (Return u, w2) \<Rightarrow>
               (case initialize_new_chain env ts (self1, w2) of
                  (Return u, self2, w3) \<Rightarrow> (Return self2, w3)
                | (Raise e2, self2, w3) \<Rightarrow> (Raise e2, w3)
                | (Diverge, self2, w3) \<Rightarrow> (Diverge, w3))
           | (Raise e2, w2) \<Rightarrow> (Raise e2, w2)
           | (Diverge, w2) \<Rightarrow> (Diverge, w2))
      | (Diverge, self1, w1) \<Rightarrow> (Diverge, w1))"

text \<open>\<^verbatim>\<open>Blockchain.get_last_block\<close>.\<close>

definition get_last_block :: "blockchain \<Rightarrow> block option" where
  "get_last_block self = (if chain self = [] then None else Some (last (chain self)))"

text \<open>The candidate \<^verbatim>\<open>add_block\<close> builds; \<open>now\<close> is the reading of \<^verbatim>\<open>time.time()\<close>.\<close>

definition new_block :: "blockchain \<Rightarrow> block \<Rightarrow> real \<Rightarrow> transaction list \<Rightarrow> block" where
  "new_block self last_block now txs =
     Block (index last_block + 1) (py_int now) txs (hash last_block) (bc_difficulty self)"

text \<open>
  \<^verbatim>\<open>Blockchain.add_block\<close>. Mining and signing are outside the \<^verbatim>\<open>try\<close>, so what
  they raise leaves the method; the two saves are inside it.
\<close>

definition add_block ::
    "('w, 'k) env \<Rightarrow> real \<Rightarrow> transaction list \<Rightarrow> 'k \<Rightarrow> blockchain \<times> 'w
       \<Rightarrow> block option outcome \<times> blockchain \<times> 'w" where
  "add_block env now txs validator_private_key = (\<lambda>(self, w).
     if txs = [] then (Return None, self, w)
     else
       (case get_last_block self of
          None \<Rightarrow> (Return None, self, w)
        | Some last_block \<Rightarrow>
            (case proof_of_work env (new_block self last_block now txs) of
               Return mined \<Rightarrow>
                 (case public_key_pem env validator_private_key of
                    Return pem \<Rightarrow>
                      (case sign_block env (mined\<lparr>validator := Some pem\<rparr>) validator_private_key of
                         Return signed \<Rightarrow>
                           (case save_block env w signed of
                              (Return block_id, w1) \<Rightarrow>
                                (case save_transactions_bulk env w1 txs block_id of
                                   (Return u, w2) \<Rightarrow>
                                     (Return (Some signed),
                                      self\<lparr>chain := chain self @ [signed]\<rparr>, w2)
                                 | (Raise e, w2) \<Rightarrow> (Return None, self, w2)
                                 | (Diverge, w2) \<Rightarrow> (Diverge, self, w2))
                            | (Raise e, w1) \<Rightarrow> (Return None, self, w1)
                            | (Diverge, w1) \<Rightarrow> (Diverge, self, w1))
                       | Raise e \<Rightarrow> (Raise e, self, w)
                       | Diverge \<Rightarrow> (Diverge, self, w))
                  | Raise e \<Rightarrow> (Raise e, self, w)
                  | Diverge \<Rightarrow> (Diverge, self, w))
             | Raise e \<Rightarrow> (Raise e, self, w)
             | Diverge \<Rightarrow> (Diverge, self, w))))"

text \<open>
  The fork choice at the end of \<^verbatim>\<open>resolve_conflicts\<close>, as a function of the
  local variable \<^verbatim>\<open>new_chain\<close> (\<open>None\<close> is Python's \<^verbatim>\<open>None\<close>; \<^verbatim>\<open>None\<close> and the empty
  list are both false in \<^verbatim>\<open>if new_chain and ...\<close>).
\<close>

definition fork_choice ::
    "('w, 'k) env \<Rightarrow> block list option \<Rightarrow> int \<Rightarrow> blockchain \<Rightarrow> bool \<times> blockchain" where
  "fork_choice env new_chain max_cumulative_diff self =
     (case new_chain of
        None \<Rightarrow> (False, self)
      | Some c \<Rightarrow>
          if c \<noteq> [] \<and> is_chain_valid env c then
            if cumulative_difficulty env c > max_cumulative_diff
            then (True, self\<lparr>chain := c\<rparr>) else (False, self)
          else (False, self))"

text \<open>
  \<^verbatim>\<open>Blockchain.resolve_conflicts(nodes)\<close>: \<^verbatim>\<open>new_chain = None\<close> is the only
  assignment to the candidate; the list of nodes is not read.
\<close>

definition resolve_conflicts ::
    "('w, 'k) env \<Rightarrow> string list \<Rightarrow> blockchain \<Rightarrow> bool \<times> blockchain" where
  "resolve_conflicts env nodes self =
     (let new_chain = None;
          max_cumulative_diff = cumulative_difficulty env (chain self)
      in fork_choice env new_chain max_cumulative_diff self)"

subsection \<open>A sample environment\<close>

text \<open>
  Modelled from the spec: the collaborators of section 6 (storage, network
  broadcast, signing credential) and the consensus rules of section 4.2, whose
  modules are not among the sources. This is one concrete environment, used
  where a theorem is instantiated or a claim is tested on an input; the general
  theorems do not depend on it.

  The world is an in-memory database of three tables (\<open>None\<close>: the table does
  not exist, and a statement that needs it raises \<^verbatim>\<open>sqlite3.OperationalError\<close>),
  the rows the cursor has not handed out yet, and the list of transactions the
  network was asked to broadcast.
\<close>

record world =
  blocks_table :: "block list option"
  transactions_table :: "(transaction \<times> int) list option"
  mempool_table :: "transaction list option"
  cursor_rows :: "string list list"
  broadcasts :: "transaction list"

definition sample_calculate_hash :: "transaction \<Rightarrow> string" where
  "sample_calculate_hash tx =
     sender tx @ ''>'' @ recipient tx @ ''#'' @ concat (map snd (data tx))"

definition sample_broadcast :: "world \<Rightarrow> transaction \<Rightarrow> unit outcome \<times> world" where
  "sample_broadcast w tx = (Return (), w\<lparr>broadcasts := broadcasts w @ [tx]\<rparr>)"

definition sample_execute :: "world \<Rightarrow> sql \<Rightarrow> unit outcome \<times> world" where
  "sample_execute w q =
     (case q of
        DropTables \<Rightarrow>
          (Return (), w\<lparr>blocks_table := None, transactions_table := None, mempool_table := None\<rparr>)
      | SelectMempoolTableName \<Rightarrow>
          (Return (), w\<lparr>cursor_rows := (if mempool_table w = None then [] else [[''mempool'']])\<rparr>)
      | SelectAllMempool \<Rightarrow>
          (case mempool_table w of
             None \<Rightarrow> (Raise OperationalError, w)
           | Some rows \<Rightarrow>
               (Return (), w\<lparr>cursor_rows := map (\<lambda>tx. [sender tx, recipient tx]) rows\<rparr>))
      | InsertOrIgnoreMempool tx \<Rightarrow>
          (case mempool_table w of
             None \<Rightarrow> (Raise OperationalError, w)
           | Some rows \<Rightarrow>
               (Return (),
                if tx_hash tx \<in> set (map tx_hash rows) then w
                else w\<lparr>mempool_table := Some (rows @ [tx])\<rparr>))
      | DeleteMempool h \<Rightarrow>
          (case mempool_table w of
             None \<Rightarrow> (Raise OperationalError, w)
           | Some rows \<Rightarrow>
               (Return (), w\<lparr>mempool_table := Some (filter (\<lambda>tx. tx_hash tx \<noteq> Some h) rows)\<rparr>)))"

definition sample_fetchone :: "world \<Rightarrow> string list option outcome \<times> world" where
  "sample_fetchone w =
     (case cursor_rows w of
        [] \<Rightarrow> (Return None, w)
      | r # rs \<Rightarrow> (Return (Some r), w\<lparr>cursor_rows := rs\<rparr>))"

definition create_if_missing :: "'a list option \<Rightarrow> 'a list option" where
  "create_if_missing t = (case t of None \<Rightarrow> Some [] | Some rows \<Rightarrow> Some rows)"

definition sample_init_db :: "world \<Rightarrow> unit outcome \<times> world" where
  "sample_init_db w =
     (Return (), w\<lparr>blocks_table := create_if_missing (blocks_table w),
                   transactions_table := create_if_missing (transactions_table w),
                   mempool_table := create_if_missing (mempool_table w)\<rparr>)"

definition sample_get_block_count :: "world \<Rightarrow> int outcome" where
  "sample_get_block_count w =
     (case blocks_table w of
        None \<Rightarrow> Raise OperationalError
      | Some bs \<Rightarrow> Return (int (length bs)))"

definition sample_get_block_by_index :: "world \<Rightarrow> int \<Rightarrow> block option outcome" where
  "sample_get_block_by_index w i =
     (case blocks_table w of
        None \<Rightarrow> Raise OperationalError
      | Some bs \<Rightarrow> Return (find (\<lambda>b. index b = i) bs))"

definition sample_save_block :: "world \<Rightarrow> block \<Rightarrow> int outcome \<times> world" where
  "sample_save_block w b =
     (case blocks_table w of
        None \<Rightarrow> (Raise OperationalError, w)
      | Some bs \<Rightarrow> (Return (int (length bs) + 1), w\<lparr>blocks_table := Some (bs @ [b])\<rparr>))"

definition sample_save_transactions_bulk ::
    "world \<Rightarrow> transaction list \<Rightarrow> int \<Rightarrow> unit outcome \<times> world" where
  "sample_save_transactions_bulk w txs block_id =
     (case transactions_table w of
        None \<Rightarrow> (Raise OperationalError, w)
      | Some rows \<Rightarrow>
          (Return (), w\<lparr>transactions_table := Some (rows @ map (\<lambda>tx. (tx, block_id)) txs)\<rparr>))"

text \<open>
  Stand-ins for the block hash, the search and the signature: the hash of a
  block is its predecessor's hash with one more character, mining stores it
  with a nonce, signing stores the key with the hash.
\<close>

definition sample_block_hash :: "block \<Rightarrow> string" where
  "sample_block_hash b = previous_hash b @ ''+''"

definition sample_proof_of_work :: "block \<Rightarrow> block outcome" where
  "sample_proof_of_work b = Return (b\<lparr>nonce := 1, hash := sample_block_hash b\<rparr>)"

definition sample_sign_block :: "block \<Rightarrow> string \<Rightarrow> block outcome" where
  "sample_sign_block b k = Return (b\<lparr>block_signature := Some (k @ hash b)\<rparr>)"

text \<open>
  Section 4.2: block 0 has index 0 and previous hash \<^verbatim>\<open>"0"\<close>; every later block
  verifies against its predecessor and has the next index. The weight of a
  chain is the sum of \<open>2 ^ difficulty\<close> over its blocks.
\<close>

fun sample_links :: "block \<Rightarrow> block list \<Rightarrow> bool" where
  "sample_links p [] = True"
| "sample_links p (b # bs) =
     (hash b = sample_block_hash b \<and> previous_hash b = hash p \<and> index b = index p + 1
      \<and> sample_links b bs)"

definition sample_is_chain_valid :: "block list \<Rightarrow> bool" where
  "sample_is_chain_valid c =
     (case c of
        [] \<Rightarrow> True
      | b # bs \<Rightarrow> previous_hash b = ''0'' \<and> index b = 0 \<and> sample_links b bs)"

definition sample_cumulative_difficulty :: "block list \<Rightarrow> int" where
  "sample_cumulative_difficulty c = sum_list (map (\<lambda>b. 2 ^ nat (difficulty b)) c)"

definition sample_env :: "(world, string) env" where
  "sample_env =
     \<lparr>calculate_hash = sample_calculate_hash,
      broadcast_transaction = sample_broadcast,
      db_connection = (\<lambda>w. (Return (), w)),
      db_execute = sample_execute,
      db_fetchone = sample_fetchone,
      db_commit = (\<lambda>w. (Return (), w)),
      init_db = sample_init_db,
      get_block_count = sample_get_block_count,
      get_block_by_index = sample_get_block_by_index,
      save_block = sample_save_block,
      save_transaction = (\<lambda>w tx block_id. sample_save_transactions_bulk w [tx] block_id),
      save_transactions_bulk = sample_save_transactions_bulk,
      proof_of_work = sample_proof_of_work,
      is_chain_valid = sample_is_chain_valid,
      cumulative_difficulty = sample_cumulative_difficulty,
      public_key_pem = (\<lambda>k. Return (''PEM:'' @ k)),
      sign_block = sample_sign_block\<rparr>"

text \<open>Sample data: three transactions with correct hashes, and worlds.\<close>

definition mk_tx :: "string \<Rightarrow> int \<Rightarrow> transaction" where
  "mk_tx s ts = Transaction sample_env ts s ''bob'' 5 []"

definition tx_a :: transaction where "tx_a = mk_tx ''alice'' 100"
definition tx_b :: transaction where "tx_b = mk_tx ''carol'' 50"
definition tx_c :: transaction where "tx_c = mk_tx ''dave'' 75"

definition fresh_world :: world where
  "fresh_world =
     \<lparr>blocks_table = Some [], transactions_table = Some [], mempool_table = Some [],
      cursor_rows = [], broadcasts = []\<rparr>"

definition empty_pool :: mempool where
  "empty_pool = \<lparr>transactions = [], max_size = 1000, p2p_network = True\<rparr>"

definition pool_ab :: mempool where
  "pool_ab =
     empty_pool\<lparr>transactions := [(''alice>bob#'', tx_a), (''carol>bob#'', tx_b)]\<rparr>"

definition pool_a :: mempool where
  "pool_a = empty_pool\<lparr>transactions := [(''alice>bob#'', tx_a)]\<rparr>"

definition full_pool :: mempool where
  "full_pool = pool_a\<lparr>max_size := 1\<rparr>"

text \<open>A database that already holds two pending transactions.\<close>

definition stocked_world :: world where
  "stocked_world = fresh_world\<lparr>mempool_table := Some [tx_a, tx_b]\<rparr>"

text \<open>
  A database without the \<^verbatim>\<open>mempool\<close> table, the state \<^verbatim>\<open>Mempool.__init__\<close>
  tolerates with its warning.
\<close>

definition no_mempool_world :: world where
  "no_mempool_world = fresh_world\<lparr>mempool_table := None\<rparr>"

subsection \<open>Sample chains\<close>

text \<open>
  The object before loading, the genesis block the sample environment mines
  for difficulty 2, the chain that holds it, and the block \<^verbatim>\<open>add_block\<close> appends
  to it for the batch \<open>[tx_a]\<close> at clock reading 12.5 with key \<^verbatim>\<open>k1\<close>.
\<close>

definition self0 :: blockchain where
  "self0 = new_self 2"

definition g0 :: block where
  "g0 = (genesis_block sample_env 0 self0)\<lparr>nonce := 1, hash := ''0+''\<rparr>"

definition chain0 :: blockchain where
  "chain0 = \<lparr>bc_difficulty = 2, chain = [g0]\<rparr>"

definition b1 :: block where
  "b1 = (new_block chain0 g0 (25 / 2) [tx_a])
          \<lparr>nonce := 1, hash := ''0++'', validator := Some ''PEM:k1'',
           block_signature := Some ''k10++''\<rparr>"

text \<open>A database without the \<^verbatim>\<open>transactions\<close> table: the bulk save raises.\<close>

definition no_transactions_world :: world where
  "no_transactions_world = fresh_world\<lparr>transactions_table := None\<rparr>"

text \<open>A one-block chain the sample rules accept, heavier than \<open>chain0\<close>.\<close>

definition heavy_chain :: "block list" where
  "heavy_chain = [g0\<lparr>difficulty := 5\<rparr>]"

text \<open>An environment whose proof-of-work search never comes back.\<close>

definition stalled_env :: "(world, string) env" where
  "stalled_env = sample_env\<lparr>proof_of_work := (\<lambda>b. Diverge)\<rparr>"

text \<open>
  A block repository that refuses a second block with an index it already
  holds (a uniqueness constraint), and a database whose only block has been
  tampered with.
\<close>

definition strict_save_block :: "world \<Rightarrow> block \<Rightarrow> int outcome \<times> world" where
  "strict_save_block w b =
     (case blocks_table w of
        None \<Rightarrow> (Raise OperationalError, w)
      | Some bs \<Rightarrow>
          if index b \<in> set (map index bs) then (Raise OtherException, w)
          else sample_save_block w b)"

definition strict_env :: "(world, string) env" where
  "strict_env = sample_env\<lparr>save_block := strict_save_block\<rparr>"

definition corrupt_world :: world where
  "corrupt_world =
     fresh_world\<lparr>blocks_table := Some [g0\<lparr>previous_hash := ''tampered''\<rparr>],
                 mempool_table := Some [tx_a]\<rparr>"

text \<open>
  Modelled from the spec: the contract of \<^verbatim>\<open>Consensus.proof_of_work\<close>
  (\<^verbatim>\<open>consensus.py\<close> is not among the sources), section 4.2: it "returns the
  block with nonce and hash populated", that is, every other field is the
  one it was given.
\<close>

definition mining_keeps_header :: "(block \<Rightarrow> block outcome) \<Rightarrow> bool" where
  "mining_keeps_header pow =
     (\<forall>b b'. pow b = Return b' \<longrightarrow> b'\<lparr>nonce := nonce b, hash := hash b\<rparr> = b)"

subsection \<open>The invariant of the mempool\<close>

text \<open>
  What a Python \<^verbatim>\<open>dict\<close> filled by \<^verbatim>\<open>add_transaction\<close> satisfies: at most
  \<open>max_size\<close> entries, no key twice, and every entry stored under its own
  \<open>tx_hash\<close>.
\<close>

definition pool_inv :: "mempool \<Rightarrow> bool" where
  "pool_inv self =
     (int (length (transactions self)) \<le> max_size self
      \<and> distinct (map fst (transactions self))
      \<and> list_all (\<lambda>p. tx_hash (snd p) = Some (fst p)) (transactions self))"

section \<open>Theorems\<close>

lemmas sample_simps =
  sample_env_def sample_calculate_hash_def sample_broadcast_def sample_execute_def
  sample_fetchone_def create_if_missing_def sample_init_db_def sample_get_block_count_def
  sample_get_block_by_index_def sample_save_block_def sample_save_transactions_bulk_def
  sample_block_hash_def sample_proof_of_work_def sample_sign_block_def
  sample_is_chain_valid_def sample_cumulative_difficulty_def
  mk_tx_def tx_a_def tx_b_def tx_c_def fresh_world_def empty_pool_def Transaction_def
  pool_ab_def pool_a_def full_pool_def stocked_world_def no_mempool_world_def

lemmas chain_simps =
  self0_def g0_def chain0_def b1_def no_transactions_world_def heavy_chain_def
  genesis_block_def genesis_tx_def Block_def new_block_def py_int_def get_last_block_def
  new_self_def

lemmas init_simps =
  Blockchain_init_def init_try_def load_chain_def initialize_new_chain_def
  create_genesis_block_def reset_blockchain_def strict_env_def strict_save_block_def
  corrupt_world_def stalled_env_def

subsection \<open>Construction of the mempool\<close>

text \<open>
  Claim C10. For every state of the database, a \<^verbatim>\<open>Mempool\<close> that has been
  constructed holds no transaction in memory: \<^verbatim>\<open>_load_from_db\<close> sends its two
  queries and returns without fetching or storing a row. The world after the
  constructor is the world after the load; the constructor returns the empty
  pool whenever the load returns or raises \<^verbatim>\<open>sqlite3.OperationalError\<close>, and any
  other exception of the load leaves the constructor.
\<close>

theorem mempool_init_starts_empty:
  "(fst (Mempool_init env w) = Return self \<longrightarrow> transactions self = [])
   \<and> snd (Mempool_init env w) = snd (load_from_db env w)
   \<and> (fst (load_from_db env w) = Return () \<or> fst (load_from_db env w) = Raise OperationalError
        \<longrightarrow> fst (Mempool_init env w)
              = Return \<lparr>transactions = [], max_size = 1000, p2p_network = True\<rparr>)
   \<and> (\<forall>e. fst (load_from_db env w) = Raise e \<and> e \<noteq> OperationalError
        \<longrightarrow> fst (Mempool_init env w) = Raise e)"
  by (auto simp: Mempool_init_def Let_def split: prod.splits outcome.splits if_splits)

text \<open>
  On a database that holds two pending transactions the second query is sent
  (its rows wait in the cursor), the table keeps its rows, and the pool in
  memory is empty.
\<close>

theorem mempool_init_starts_empty_witness:
  "fst (Mempool_init sample_env stocked_world) = Return empty_pool
   \<and> transactions empty_pool = []
   \<and> mempool_table (snd (Mempool_init sample_env stocked_world)) = Some [tx_a, tx_b]
   \<and> length (cursor_rows (snd (Mempool_init sample_env stocked_world))) = 2"
  using mempool_init_starts_empty [of sample_env stocked_world empty_pool]
  by (simp add: load_from_db_def sample_simps)

subsection \<open>Capacity and uniqueness\<close>

lemma dict_del_length: "length (dict_del k d) \<le> length d"
  by (simp add: dict_del_def)

lemma dict_del_distinct: "distinct (map fst d) \<Longrightarrow> distinct (map fst (dict_del k d))"
  by (simp add: dict_del_def distinct_map_filter)

lemma dict_del_all: "list_all P d \<Longrightarrow> list_all P (dict_del k d)"
  by (simp add: dict_del_def list_all_iff)

lemma pool_inv_del:
  "pool_inv self \<Longrightarrow> pool_inv (self\<lparr>transactions := dict_del k (transactions self)\<rparr>)"
  using dict_del_length [of k "transactions self"]
  by (simp add: pool_inv_def dict_del_distinct dict_del_all)

lemma dict_set_new: "\<not> dict_has k d \<Longrightarrow> dict_set k v d = d @ [(k, v)]"
  by (induction d) (auto simp: dict_has_def)

lemma pool_inv_set:
  "pool_inv self \<Longrightarrow> \<not> dict_has h (transactions self) \<Longrightarrow>
   int (length (transactions self)) < max_size self \<Longrightarrow> tx_hash tx = Some h \<Longrightarrow>
   pool_inv (self\<lparr>transactions := dict_set h tx (transactions self)\<rparr>)"
  by (simp add: pool_inv_def dict_set_new dict_has_def)

lemma add_transaction_inv:
  "pool_inv self \<Longrightarrow> pool_inv (fst (snd (add_transaction env tx (self, w))))"
  by (auto simp: add_transaction_def pool_inv_set Let_def split: option.splits prod.splits outcome.splits)

lemma remove_loop_inv:
  "remove_loop env hs self w = (r, self', w') \<Longrightarrow> pool_inv self \<Longrightarrow> pool_inv self'"
  by (induction hs arbitrary: self w)
     (auto simp: pool_inv_del Let_def split: prod.splits outcome.splits if_splits)

lemma remove_transactions_inv:
  "pool_inv self \<Longrightarrow> pool_inv (fst (snd (remove_transactions env hs (self, w))))"
  by (auto simp: remove_transactions_def split: prod.splits outcome.splits
           dest: remove_loop_inv)

lemma clear_loop_inv:
  "clear_loop env hs self w = (r, self', w') \<Longrightarrow> pool_inv self \<Longrightarrow> pool_inv self'"
  by (induction hs arbitrary: self w)
     (auto simp: pool_inv_del Let_def split: prod.splits outcome.splits if_splits)

lemma clear_expired_inv:
  "pool_inv self \<Longrightarrow> pool_inv (fst (snd (clear_expired env now ttl (self, w))))"
  by (auto simp: clear_expired_def Let_def split: prod.splits outcome.splits
           dest: clear_loop_inv)

lemma Mempool_init_inv:
  "fst (Mempool_init env w) = Return self \<Longrightarrow> pool_inv self"
  by (auto simp: Mempool_init_def Let_def pool_inv_def split: prod.splits outcome.splits if_splits)

lemma add_transaction_full:
  "max_size self \<le> int (length (transactions self)) \<Longrightarrow>
   add_transaction env tx (self, w) = (Return False, self, w)"
  by (auto simp: add_transaction_def split: option.splits)

lemma pool_inv_hashes:
  "pool_inv self \<Longrightarrow> distinct (map (\<lambda>p. tx_hash (snd p)) (transactions self))"
proof -
  assume a: "pool_inv self"
  have "map (\<lambda>p. tx_hash (snd p)) (transactions self) = map (\<lambda>p. Some (fst p)) (transactions self)"
    using a by (auto simp: pool_inv_def list_all_iff)
  also have "\<dots> = map Some (map fst (transactions self))" by simp
  finally show ?thesis using a by (simp add: pool_inv_def distinct_map del: map_map)
qed

text \<open>
  Claim C7. The pool built by the constructor satisfies the invariant (at most
  \<open>max_size\<close> entries, no key twice, every entry under its own \<open>tx_hash\<close>), and
  \<^verbatim>\<open>add_transaction\<close>, \<^verbatim>\<open>remove_transactions\<close> and \<^verbatim>\<open>clear_expired\<close> preserve it
  whatever their outcome, also when the database or the network raises half
  way. Under the invariant no two entries carry the same \<open>tx_hash\<close>. At capacity
  \<^verbatim>\<open>add_transaction\<close> returns \<^verbatim>\<open>False\<close> and changes neither the pool nor the
  world: the new transaction is rejected and nothing is evicted.
\<close>

theorem mempool_bounded_and_unique:
  "(fst (Mempool_init env w0) = Return pool0 \<longrightarrow> pool_inv pool0)
   \<and> (pool_inv self \<longrightarrow>
          pool_inv (fst (snd (add_transaction env tx (self, w))))
        \<and> pool_inv (fst (snd (remove_transactions env tx_hashes (self, w))))
        \<and> pool_inv (fst (snd (clear_expired env now expiry_seconds (self, w))))
        \<and> int (length (transactions self)) \<le> max_size self
        \<and> distinct (map (\<lambda>p. tx_hash (snd p)) (transactions self)))
   \<and> (max_size self \<le> int (length (transactions self)) \<longrightarrow>
          add_transaction env tx (self, w) = (Return False, self, w))"
proof (intro conjI impI)
  assume "fst (Mempool_init env w0) = Return pool0"
  then show "pool_inv pool0" by (rule Mempool_init_inv)
next
  assume "pool_inv self"
  then show "pool_inv (fst (snd (add_transaction env tx (self, w))))"
    by (rule add_transaction_inv)
next
  assume "pool_inv self"
  then show "pool_inv (fst (snd (remove_transactions env tx_hashes (self, w))))"
    by (rule remove_transactions_inv)
next
  assume "pool_inv self"
  then show "pool_inv (fst (snd (clear_expired env now expiry_seconds (self, w))))"
    by (rule clear_expired_inv)
next
  assume "pool_inv self"
  then show "int (length (transactions self)) \<le> max_size self"
    by (simp add: pool_inv_def)
next
  assume "pool_inv self"
  then show "distinct (map (\<lambda>p. tx_hash (snd p)) (transactions self))"
    by (rule pool_inv_hashes)
next
  assume "max_size self \<le> int (length (transactions self))"
  then show "add_transaction env tx (self, w) = (Return False, self, w)"
    by (rule add_transaction_full)
qed

text \<open>
  A pool of one transaction admits a second one below capacity and keeps the
  invariant; the same pool with \<open>max_size = 1\<close> rejects it and is unchanged.
\<close>

theorem mempool_bounded_and_unique_witness:
  "pool_inv pool_a
   \<and> fst (add_transaction sample_env tx_b (pool_a, fresh_world)) = Return True
   \<and> pool_inv (fst (snd (add_transaction sample_env tx_b (pool_a, fresh_world))))
   \<and> fst (snd (add_transaction sample_env tx_b (pool_a, fresh_world))) = pool_ab
   \<and> max_size full_pool \<le> int (length (transactions full_pool))
   \<and> add_transaction sample_env tx_b (full_pool, fresh_world) = (Return False, full_pool, fresh_world)"
proof -
  have inv: "pool_inv pool_a"
    by (simp add: pool_inv_def sample_simps)
  have full: "max_size full_pool \<le> int (length (transactions full_pool))"
    by (simp add: sample_simps)
  have run: "add_transaction sample_env tx_b (pool_a, fresh_world)
             = (Return True, pool_ab, fresh_world\<lparr>mempool_table := Some [tx_b], broadcasts := [tx_b]\<rparr>)"
    by (simp add: add_transaction_def insert_into_mempool_table_def dict_has_def sample_simps)
  from mempool_bounded_and_unique
         [where env = sample_env and self = pool_a and tx = tx_b and w = fresh_world]
       mempool_bounded_and_unique
         [where env = sample_env and self = full_pool and tx = tx_b and w = fresh_world]
       inv full run
  show ?thesis by simp
qed

subsection \<open>Selection of pending transactions\<close>

lemma slice_to_take: "\<exists>k. slice_to xs n = take k xs"
  by (auto simp: slice_to_def)

lemma get_transactions_prefix:
  "\<exists>k. fst (get_transactions n self) = take k (sort_key timestamp (map snd (transactions self)))"
  using slice_to_take by (simp add: get_transactions_def Let_def)

text \<open>
  Claim C8, as amended. \<^verbatim>\<open>get_transactions\<close> leaves the pool as it was, and
  what it returns is a prefix of the pending transactions sorted by ascending
  timestamp: some rest completes it to a sorted list holding exactly the
  transactions of the pool, so the ones returned are the oldest. For
  \<open>max_count \<ge> 0\<close> it returns at most \<open>max_count\<close> of them. (For a negative
  \<open>max_count\<close> the slice \<^verbatim>\<open>sorted_txs[:max_count]\<close> drops that many from the end
  instead.)
\<close>

theorem get_transactions_oldest_first:
  "snd (get_transactions max_count self) = self
   \<and> (\<exists>rest. sorted (map timestamp (fst (get_transactions max_count self) @ rest))
          \<and> mset (fst (get_transactions max_count self) @ rest)
              = mset (map snd (transactions self)))
   \<and> (0 \<le> max_count \<longrightarrow> int (length (fst (get_transactions max_count self))) \<le> max_count)"
proof -
  let ?all = "sort_key timestamp (map snd (transactions self))"
  obtain k where k: "fst (get_transactions max_count self) = take k ?all"
    using get_transactions_prefix by blast
  have "sorted (map timestamp (take k ?all @ drop k ?all))"
    by simp
  moreover have "mset (take k ?all @ drop k ?all) = mset (map snd (transactions self))"
    by simp
  ultimately have ex: "\<exists>rest. sorted (map timestamp (fst (get_transactions max_count self) @ rest))
          \<and> mset (fst (get_transactions max_count self) @ rest)
              = mset (map snd (transactions self))"
    unfolding k by blast
  have unchanged: "snd (get_transactions max_count self) = self"
    by (simp add: get_transactions_def Let_def)
  have bound: "0 \<le> max_count \<longrightarrow> int (length (fst (get_transactions max_count self))) \<le> max_count"
    by (auto simp: get_transactions_def Let_def slice_to_def)
  from unchanged ex bound show ?thesis by blast
qed

theorem get_transactions_oldest_first_witness:
  "fst (get_transactions 1 pool_ab) = [tx_b] \<and> snd (get_transactions 1 pool_ab) = pool_ab
   \<and> int (length (fst (get_transactions 1 pool_ab))) \<le> 1"
proof -
  have ev: "fst (get_transactions 1 pool_ab) = [tx_b]"
    by (simp add: get_transactions_def slice_to_def sample_simps)
  from get_transactions_oldest_first [of 1 pool_ab] ev show ?thesis by simp
qed

text \<open>
  Claim C8 as stated fails for a negative \<open>max_count\<close>: on a pool of two
  transactions \<^verbatim>\<open>get_transactions(-1)\<close> returns one transaction, which is more
  than \<open>-1\<close>.
\<close>

theorem get_transactions_negative_count_counterexample:
  "fst (get_transactions (- 1) pool_ab) = [tx_b]
   \<and> \<not> int (length (fst (get_transactions (- 1) pool_ab))) \<le> - 1"
  by (simp add: get_transactions_def slice_to_def sample_simps)

subsection \<open>Expiry\<close>


lemma clear_loop_KeyError_from_db:
  "distinct hs \<Longrightarrow> set hs \<subseteq> fst ` set (transactions self) \<Longrightarrow>
   (\<And>w q. fst (db_execute env w q) \<noteq> Raise KeyError) \<Longrightarrow>
   fst (clear_loop env hs self w) \<noteq> Raise KeyError"
proof (induction hs arbitrary: self w)
  case Nil
  then show ?case by simp
next
  case (Cons h hs)
  have has: "dict_has h (transactions self)"
    using Cons.prems(2) by (auto simp: dict_has_def)
  let ?self1 = "self\<lparr>transactions := dict_del h (transactions self)\<rparr>"
  have sub: "set hs \<subseteq> fst ` set (transactions ?self1)"
  proof
    fix x assume x: "x \<in> set hs"
    with Cons.prems(2) obtain p where p: "p \<in> set (transactions self)" "fst p = x" by auto
    from x Cons.prems(1) have "x \<noteq> h" by auto
    with p show "x \<in> fst ` set (transactions ?self1)" by (force simp: dict_del_def)
  qed
  have "fst (clear_loop env hs ?self1 w1) \<noteq> Raise KeyError" for w1
    using Cons.IH [OF _ sub] Cons.prems(1) Cons.prems(3) by simp
  then show ?case using has Cons.prems(3) [of w "DeleteMempool h"]
    by (auto simp: Let_def split: prod.splits outcome.splits)
qed







subsection \<open>Admission\<close>

text \<open>
  In every environment: when the checks pass, the broadcast returns and the
  database insert raises, \<^verbatim>\<open>add_transaction\<close> returns \<^verbatim>\<open>False\<close> and the pool
  holds the new transaction.
\<close>

lemma add_transaction_insert_raises:
  assumes "tx_hash tx = Some h" "h \<noteq> []" "h = calculate_hash env tx"
      and "\<not> dict_has h (transactions self)"
      and "int (length (transactions self)) < max_size self"
      and "p2p_network self"
      and "broadcast_transaction env w tx = (Return (), w1)"
      and "insert_into_mempool_table env tx w1 = (Raise e, w2)"
  shows "add_transaction env tx (self, w)
         = (Return False, self\<lparr>transactions := transactions self @ [(h, tx)]\<rparr>, w2)"
  using assms by (simp add: add_transaction_def dict_set_new)

text \<open>
  Claim C2 at a failing input. The \<^verbatim>\<open>mempool\<close> table does not exist, so the
  \<^verbatim>\<open>INSERT\<close> raises. \<^verbatim>\<open>add_transaction\<close> returns \<^verbatim>\<open>False\<close>, but the transaction
  has been broadcast and is in the in-memory mapping: the broadcast and the
  store into \<^verbatim>\<open>self.transactions\<close> come before the database insert, and the
  \<^verbatim>\<open>except\<close> clause undoes neither.
\<close>

theorem add_transaction_persistence_failure:
  "add_transaction sample_env tx_a (empty_pool, no_mempool_world)
   = (Return False, pool_a, no_mempool_world\<lparr>broadcasts := [tx_a]\<rparr>)"
  by (simp add: add_transaction_def insert_into_mempool_table_def dict_has_def sample_simps)

subsection \<open>Appending a block\<close>

text \<open>
  Claim C4. Once the candidate has been mined and signed, \<^verbatim>\<open>add_block\<close> saves
  the block, then its transactions, and only then appends to the in-memory
  chain. If \<^verbatim>\<open>save_block\<close> raises, or \<^verbatim>\<open>save_transactions_bulk\<close> raises after it,
  the method returns \<^verbatim>\<open>None\<close> and the object is exactly what it was; if both
  return, the signed block is returned and appended. Conversely, whenever the
  object after the call differs from the object before it, both saves have
  returned and the difference is the one appended block.
\<close>

theorem add_block_persists_before_append:
  "(txs \<noteq> [] \<and> chain self \<noteq> []
    \<and> proof_of_work env (new_block self (last (chain self)) now txs) = Return mined
    \<and> public_key_pem env key = Return pem
    \<and> sign_block env (mined\<lparr>validator := Some pem\<rparr>) key = Return signed
    \<longrightarrow>
      (\<forall>e w1. save_block env w signed = (Raise e, w1)
           \<longrightarrow> add_block env now txs key (self, w) = (Return None, self, w1))
    \<and> (\<forall>block_id w1 e w2. save_block env w signed = (Return block_id, w1)
           \<and> save_transactions_bulk env w1 txs block_id = (Raise e, w2)
           \<longrightarrow> add_block env now txs key (self, w) = (Return None, self, w2))
    \<and> (\<forall>block_id w1 w2. save_block env w signed = (Return block_id, w1)
           \<and> save_transactions_bulk env w1 txs block_id = (Return (), w2)
           \<longrightarrow> add_block env now txs key (self, w)
                 = (Return (Some signed), self\<lparr>chain := chain self @ [signed]\<rparr>, w2)))
   \<and> (\<forall>r self' w'. add_block env now txs key (self, w) = (r, self', w') \<and> self' \<noteq> self
        \<longrightarrow> (\<exists>b block_id w1.
               r = Return (Some b) \<and> self' = self\<lparr>chain := chain self @ [b]\<rparr>
             \<and> save_block env w b = (Return block_id, w1)
             \<and> save_transactions_bulk env w1 txs block_id = (Return (), w')))"
  by (auto simp: add_block_def get_last_block_def
           split: option.splits prod.splits outcome.splits if_splits)

text \<open>
  With the \<^verbatim>\<open>transactions\<close> table missing the block row is written, the bulk
  save raises, the result is \<^verbatim>\<open>None\<close> and the chain is unchanged; on the full
  database the block is appended.
\<close>

theorem add_block_persists_before_append_witness:
  "add_block sample_env (25 / 2) [tx_a] ''k1'' (chain0, no_transactions_world)
     = (Return None, chain0, no_transactions_world\<lparr>blocks_table := Some [b1]\<rparr>)
   \<and> add_block sample_env (25 / 2) [tx_a] ''k1'' (chain0, fresh_world)
     = (Return (Some b1), chain0\<lparr>chain := chain chain0 @ [b1]\<rparr>,
        fresh_world\<lparr>blocks_table := Some [b1], transactions_table := Some [(tx_a, 1)]\<rparr>)"
proof -
  let ?mined = "(new_block chain0 (last (chain chain0)) (25 / 2) [tx_a])\<lparr>nonce := 1, hash := ''0++''\<rparr>"
  have pre: "[tx_a] \<noteq> [] \<and> chain chain0 \<noteq> []
    \<and> proof_of_work sample_env (new_block chain0 (last (chain chain0)) (25 / 2) [tx_a]) = Return ?mined
    \<and> public_key_pem sample_env ''k1'' = Return ''PEM:k1''
    \<and> sign_block sample_env (?mined\<lparr>validator := Some ''PEM:k1''\<rparr>) ''k1'' = Return b1"
    by (simp add: chain_simps sample_simps)
  have block_saved: "save_block sample_env no_transactions_world b1
      = (Return 1, no_transactions_world\<lparr>blocks_table := Some [b1]\<rparr>)"
    by (simp add: no_transactions_world_def sample_simps)
  have bulk_raises: "save_transactions_bulk sample_env
        (no_transactions_world\<lparr>blocks_table := Some [b1]\<rparr>) [tx_a] 1
      = (Raise OperationalError, no_transactions_world\<lparr>blocks_table := Some [b1]\<rparr>)"
    by (simp add: no_transactions_world_def sample_simps)
  have block_saved': "save_block sample_env fresh_world b1
      = (Return 1, fresh_world\<lparr>blocks_table := Some [b1]\<rparr>)"
    by (simp add: sample_simps)
  have bulk_saved: "save_transactions_bulk sample_env (fresh_world\<lparr>blocks_table := Some [b1]\<rparr>) [tx_a] 1
      = (Return (), fresh_world\<lparr>blocks_table := Some [b1], transactions_table := Some [(tx_a, 1)]\<rparr>)"
    by (simp add: sample_simps)
  from add_block_persists_before_append
          [where env = sample_env and self = chain0 and txs = "[tx_a]" and now = "25 / 2"
             and key = "''k1''" and w = no_transactions_world and mined = ?mined
             and pem = "''PEM:k1''" and signed = b1]
       pre block_saved bulk_raises
  have failing: "add_block sample_env (25 / 2) [tx_a] ''k1'' (chain0, no_transactions_world)
     = (Return None, chain0, no_transactions_world\<lparr>blocks_table := Some [b1]\<rparr>)"
    by blast
  from add_block_persists_before_append
          [where env = sample_env and self = chain0 and txs = "[tx_a]" and now = "25 / 2"
             and key = "''k1''" and w = fresh_world and mined = ?mined
             and pem = "''PEM:k1''" and signed = b1]
       pre block_saved' bulk_saved
  have passing: "add_block sample_env (25 / 2) [tx_a] ''k1'' (chain0, fresh_world)
     = (Return (Some b1), chain0\<lparr>chain := chain chain0 @ [b1]\<rparr>,
        fresh_world\<lparr>blocks_table := Some [b1], transactions_table := Some [(tx_a, 1)]\<rparr>)"
    by blast
  from failing passing show ?thesis by (intro conjI)
qed

text \<open>
  Claim C5. An empty batch, or a chain with no block, makes \<^verbatim>\<open>add_block\<close>
  return \<^verbatim>\<open>None\<close> with the object and the world untouched, in every
  environment, also one whose proof-of-work never returns and whose saves
  raise: neither is called. For a non-empty batch on a non-empty chain the
  candidate has the last block's index plus one, the last block's hash as
  \<open>previous_hash\<close> and the batch as its transactions; it is this candidate that
  is mined (what mining raises on it leaves the method before any save), and
  a block the method returns is this candidate after mining and signing.
\<close>

theorem add_block_rejects_before_work:
  "add_block env now [] key (self, w) = (Return None, self, w)
   \<and> (chain self = [] \<longrightarrow> add_block env now txs key (self, w) = (Return None, self, w))
   \<and> (txs \<noteq> [] \<and> chain self \<noteq> [] \<longrightarrow>
        index (new_block self (last (chain self)) now txs) = index (last (chain self)) + 1
      \<and> previous_hash (new_block self (last (chain self)) now txs) = hash (last (chain self))
      \<and> block_transactions (new_block self (last (chain self)) now txs) = txs
      \<and> (\<forall>e. proof_of_work env (new_block self (last (chain self)) now txs) = Raise e
             \<longrightarrow> add_block env now txs key (self, w) = (Raise e, self, w))
      \<and> (\<forall>b. fst (add_block env now txs key (self, w)) = Return (Some b)
             \<longrightarrow> (\<exists>mined pem.
                    proof_of_work env (new_block self (last (chain self)) now txs) = Return mined
                  \<and> public_key_pem env key = Return pem
                  \<and> sign_block env (mined\<lparr>validator := Some pem\<rparr>) key = Return b)))"
  by (auto simp: add_block_def get_last_block_def new_block_def Block_def
           split: option.splits prod.splits outcome.splits if_splits)

theorem add_block_rejects_before_work_witness:
  "add_block stalled_env (25 / 2) [] ''k1'' (chain0, fresh_world) = (Return None, chain0, fresh_world)
   \<and> add_block stalled_env (25 / 2) [tx_a] ''k1'' (self0, fresh_world) = (Return None, self0, fresh_world)
   \<and> index (new_block chain0 (last (chain chain0)) (25 / 2) [tx_a]) = index g0 + 1
   \<and> previous_hash (new_block chain0 (last (chain chain0)) (25 / 2) [tx_a]) = hash g0"
proof -
  have empty: "chain self0 = []"
    by (simp add: self0_def new_self_def)
  have ready: "[tx_a] \<noteq> [] \<and> chain chain0 \<noteq> [] \<and> last (chain chain0) = g0"
    by (simp add: chain0_def)
  from add_block_rejects_before_work
          [where env = stalled_env and self = chain0 and txs = "[tx_a]" and now = "25 / 2"
             and key = "''k1''" and w = fresh_world]
       add_block_rejects_before_work
          [where env = stalled_env and self = self0 and txs = "[tx_a]" and now = "25 / 2"
             and key = "''k1''" and w = fresh_world]
       empty ready
  show ?thesis by simp
qed

subsection \<open>The genesis block\<close>

lemma genesis_block_fields:
  "index (genesis_block env ts self) = 0
   \<and> previous_hash (genesis_block env ts self) = ''0''
   \<and> block_transactions (genesis_block env ts self) = [genesis_tx env ts]
   \<and> validator (genesis_block env ts self) = None
   \<and> block_signature (genesis_block env ts self) = None
   \<and> difficulty (genesis_block env ts self) = bc_difficulty self
   \<and> sender (genesis_tx env ts) = ''0''
   \<and> amount (genesis_tx env ts) = 0
   \<and> data (genesis_tx env ts)
       = [(''type'', ''genesis''), (''message'', ''Initial block of the chain'')]
   \<and> signature (genesis_tx env ts) = None"
  by (simp add: genesis_block_def genesis_tx_def Block_def Transaction_def Let_def)

lemma mining_keeps_headerD:
  assumes "mining_keeps_header pow" "pow b = Return b'"
  shows "index b' = index b" "previous_hash b' = previous_hash b"
    "block_transactions b' = block_transactions b" "validator b' = validator b"
    "block_signature b' = block_signature b" "difficulty b' = difficulty b"
    "block_timestamp b' = block_timestamp b"
proof -
  from assms have eq: "b'\<lparr>nonce := nonce b, hash := hash b\<rparr> = b"
    by (simp add: mining_keeps_header_def)
  have "index (b'\<lparr>nonce := nonce b, hash := hash b\<rparr>) = index b'" by simp
  with eq show "index b' = index b" by simp
  have "previous_hash (b'\<lparr>nonce := nonce b, hash := hash b\<rparr>) = previous_hash b'" by simp
  with eq show "previous_hash b' = previous_hash b" by simp
  have "block_transactions (b'\<lparr>nonce := nonce b, hash := hash b\<rparr>) = block_transactions b'" by simp
  with eq show "block_transactions b' = block_transactions b" by simp
  have "validator (b'\<lparr>nonce := nonce b, hash := hash b\<rparr>) = validator b'" by simp
  with eq show "validator b' = validator b" by simp
  have "block_signature (b'\<lparr>nonce := nonce b, hash := hash b\<rparr>) = block_signature b'" by simp
  with eq show "block_signature b' = block_signature b" by simp
  have "difficulty (b'\<lparr>nonce := nonce b, hash := hash b\<rparr>) = difficulty b'" by simp
  with eq show "difficulty b' = difficulty b" by simp
  have "block_timestamp (b'\<lparr>nonce := nonce b, hash := hash b\<rparr>) = block_timestamp b'" by simp
  with eq show "block_timestamp b' = block_timestamp b" by simp
qed

lemma initialize_new_chain_Return:
  "initialize_new_chain env ts (self, w) = (Return (), self', w') \<Longrightarrow>
   \<exists>g. self' = self\<lparr>chain := [g]\<rparr> \<and> proof_of_work env (genesis_block env ts self) = Return g
       \<and> (\<exists>block_id w1. save_block env w g = (Return block_id, w1)
            \<and> save_transaction env w1 (genesis_tx env ts) block_id = (Return (), w'))"
  by (auto simp: initialize_new_chain_def create_genesis_block_def
           split: prod.splits outcome.splits)

text \<open>
  Claim C6. When \<^verbatim>\<open>_initialize_new_chain\<close> returns, the chain is the single
  block \<open>g\<close> that \<^verbatim>\<open>proof_of_work\<close> returned for the genesis block built by
  \<^verbatim>\<open>_create_genesis_block\<close>. The block handed to mining has index 0, previous
  hash \<^verbatim>\<open>"0"\<close>, exactly one transaction (sender \<^verbatim>\<open>"0"\<close>, amount 0, the genesis
  marker as data), no validator and no signature, and no signing step follows.
  When mining only sets nonce and hash, as its contract says, the mined block
  \<open>g\<close> has these fields too.
\<close>

theorem genesis_block_shape:
  "initialize_new_chain env ts (self, w) = (Return (), self', w') \<longrightarrow>
     (\<exists>g. chain self' = [g]
        \<and> proof_of_work env (genesis_block env ts self) = Return g
        \<and> index (genesis_block env ts self) = 0
        \<and> previous_hash (genesis_block env ts self) = ''0''
        \<and> (\<exists>tx. block_transactions (genesis_block env ts self) = [tx]
               \<and> sender tx = ''0'' \<and> amount tx = 0
               \<and> data tx = [(''type'', ''genesis''), (''message'', ''Initial block of the chain'')])
        \<and> validator (genesis_block env ts self) = None
        \<and> block_signature (genesis_block env ts self) = None
        \<and> (mining_keeps_header (proof_of_work env) \<longrightarrow>
              index g = 0 \<and> previous_hash g = ''0''
            \<and> (\<exists>tx. block_transactions g = [tx]
                   \<and> sender tx = ''0'' \<and> amount tx = 0
                   \<and> data tx = [(''type'', ''genesis''), (''message'', ''Initial block of the chain'')])
            \<and> validator g = None \<and> block_signature g = None))"
proof
  assume "initialize_new_chain env ts (self, w) = (Return (), self', w')"
  from initialize_new_chain_Return [OF this] obtain g where
    g: "self' = self\<lparr>chain := [g]\<rparr>" "proof_of_work env (genesis_block env ts self) = Return g"
    by blast
  note f = genesis_block_fields [of env ts self]
  have kept: "index g = 0 \<and> previous_hash g = ''0''
            \<and> (\<exists>tx. block_transactions g = [tx]
                   \<and> sender tx = ''0'' \<and> amount tx = 0
                   \<and> data tx = [(''type'', ''genesis''), (''message'', ''Initial block of the chain'')])
            \<and> validator g = None \<and> block_signature g = None"
    if "mining_keeps_header (proof_of_work env)"
    using mining_keeps_headerD [OF that g(2)] f by simp
  from g f kept show "\<exists>g. chain self' = [g]
        \<and> proof_of_work env (genesis_block env ts self) = Return g
        \<and> index (genesis_block env ts self) = 0
        \<and> previous_hash (genesis_block env ts self) = ''0''
        \<and> (\<exists>tx. block_transactions (genesis_block env ts self) = [tx]
               \<and> sender tx = ''0'' \<and> amount tx = 0
               \<and> data tx = [(''type'', ''genesis''), (''message'', ''Initial block of the chain'')])
        \<and> validator (genesis_block env ts self) = None
        \<and> block_signature (genesis_block env ts self) = None
        \<and> (mining_keeps_header (proof_of_work env) \<longrightarrow>
              index g = 0 \<and> previous_hash g = ''0''
            \<and> (\<exists>tx. block_transactions g = [tx]
                   \<and> sender tx = ''0'' \<and> amount tx = 0
                   \<and> data tx = [(''type'', ''genesis''), (''message'', ''Initial block of the chain'')])
            \<and> validator g = None \<and> block_signature g = None)"
    by (intro exI [of _ g]) simp
qed

lemma sample_mining_keeps_header: "mining_keeps_header (proof_of_work sample_env)"
  by (simp add: mining_keeps_header_def sample_env_def sample_proof_of_work_def)

theorem genesis_block_shape_witness:
  "initialize_new_chain sample_env 0 (self0, fresh_world)
     = (Return (), chain0,
        fresh_world\<lparr>blocks_table := Some [g0],
                    transactions_table := Some [(genesis_tx sample_env 0, 1)]\<rparr>)
   \<and> mining_keeps_header (proof_of_work sample_env)
   \<and> chain chain0 = [g0] \<and> index g0 = 0 \<and> previous_hash g0 = ''0''
   \<and> length (block_transactions g0) = 1
   \<and> validator g0 = None \<and> block_signature g0 = None"
proof -
  have run: "initialize_new_chain sample_env 0 (self0, fresh_world)
     = (Return (), chain0,
        fresh_world\<lparr>blocks_table := Some [g0],
                    transactions_table := Some [(genesis_tx sample_env 0, 1)]\<rparr>)"
    by (simp add: initialize_new_chain_def create_genesis_block_def chain_simps sample_simps)
  have sole: "chain chain0 = [g0]"
    by (simp add: chain0_def)
  from genesis_block_shape
         [where env = sample_env and ts = 0 and self = self0 and w = fresh_world
            and self' = chain0
            and w' = "fresh_world\<lparr>blocks_table := Some [g0],
                        transactions_table := Some [(genesis_tx sample_env 0, 1)]\<rparr>"]
       run sample_mining_keeps_header sole
  show ?thesis by auto
qed

subsection \<open>Fork choice\<close>

text \<open>
  Claim C1, as amended. \<^verbatim>\<open>resolve_conflicts\<close> receives a list of node
  addresses, never a candidate chain, and its candidate variable stays \<^verbatim>\<open>None\<close>:
  for every input it returns \<^verbatim>\<open>False\<close> and leaves the object unchanged. The
  test it holds ready for a candidate replaces the whole chain exactly when
  the candidate is non-empty, accepted by \<^verbatim>\<open>is_chain_valid\<close> and strictly
  heavier than the current chain, and otherwise changes nothing and answers
  \<^verbatim>\<open>False\<close>.
\<close>

theorem resolve_conflicts_never_replaces:
  "resolve_conflicts env nodes self = (False, self)
   \<and> fork_choice env None (cumulative_difficulty env (chain self)) self = (False, self)
   \<and> fork_choice env (Some c) (cumulative_difficulty env (chain self)) self
       = (if c \<noteq> [] \<and> is_chain_valid env c
             \<and> cumulative_difficulty env c > cumulative_difficulty env (chain self)
          then (True, self\<lparr>chain := c\<rparr>) else (False, self))"
  by (simp add: resolve_conflicts_def fork_choice_def)

theorem resolve_conflicts_never_replaces_witness:
  "resolve_conflicts sample_env [''peer-1''] chain0 = (False, chain0)
   \<and> fork_choice sample_env (Some heavy_chain) (cumulative_difficulty sample_env (chain chain0)) chain0
       = (True, chain0\<lparr>chain := heavy_chain\<rparr>)
   \<and> fork_choice sample_env (Some [g0]) (cumulative_difficulty sample_env (chain chain0)) chain0
       = (False, chain0)"
  using resolve_conflicts_never_replaces [of sample_env "[''peer-1'']" chain0 heavy_chain]
        resolve_conflicts_never_replaces [of sample_env "[''peer-1'']" chain0 "[g0]"]
  by (simp add: chain_simps sample_simps)

text \<open>
  Claim C1 as stated fails: a non-empty candidate that the consensus rules
  accept and that is strictly heavier than the current chain exists, and
  \<^verbatim>\<open>resolve_conflicts\<close> still returns \<^verbatim>\<open>False\<close> with the chain unchanged.
\<close>

theorem resolve_conflicts_heavier_candidate_counterexample:
  "heavy_chain \<noteq> []
   \<and> is_chain_valid sample_env heavy_chain
   \<and> cumulative_difficulty sample_env heavy_chain > cumulative_difficulty sample_env (chain chain0)
   \<and> resolve_conflicts sample_env [''peer-1''] chain0 = (False, chain0)
   \<and> chain chain0 \<noteq> heavy_chain"
  by (simp add: resolve_conflicts_def fork_choice_def chain_simps sample_simps)

subsection \<open>Startup\<close>












text \<open>
  The same happens in the sample environment for a persisted chain that
  \<^verbatim>\<open>is_chain_valid\<close> rejects: \<^verbatim>\<open>load_chain\<close> already returns \<^verbatim>\<open>[]\<close> for it, the
  branch of \<^verbatim>\<open>__init__\<close> that resets on an invalid chain is never taken, and the
  tampered block stays in the table next to the new genesis block.
\<close>

lemma startup_rejected_chain_kept:
  "load_chain sample_env (snd (init_db sample_env corrupt_world)) = Return []
   \<and> Blockchain_init sample_env 2 0 corrupt_world
       = (Return chain0,
          corrupt_world\<lparr>blocks_table := Some [g0\<lparr>previous_hash := ''tampered''\<rparr>, g0],
                        transactions_table := Some [(genesis_tx sample_env 0, 2)]\<rparr>)"
  by (simp add: init_simps chain_simps sample_simps)

end
